theory Spec2Isabelle
  imports Main
begin

section \<open>The smart-ping action: \<^verbatim>\<open>.github/actions/smart-ping/index.js\<close>\<close>

text \<open>
  The file declares one asynchronous function, \<^verbatim>\<open>run\<close>, and calls it once on its last
  line. The function is written to read one input, to drive a headless browser through a
  fixed sequence of awaited calls inside a single \<^verbatim>\<open>try\<close> block, and to report
  through the workflow toolkit. Whether any of this is ever executed depends on the text of
  the file as a whole: the text has to be accepted by the loader of the language before
  the call on the last line is reached. The file is therefore embedded with its text, and
  \<^verbatim>\<open>run\<close> is the function of that text.

  Everything outside the file (the browser-automation library, the page, the network) is
  the environment: for every call the function awaits, the environment says whether the
  call is rejected and with which error. The function's effects are collected in a record
  of the world it acts on.
\<close>

subsection \<open>Errors, calls and the environment\<close>

text \<open>A thrown JavaScript \<^verbatim>\<open>Error\<close>: its \<^verbatim>\<open>name\<close> and its \<^verbatim>\<open>message\<close>.\<close>

datatype error = Error (err_name: string) (err_message: string)

text \<open>An element handle of the page.\<close>

type_synonym element = nat

text \<open>
  The awaited calls of \<^verbatim>\<open>run\<close>, with the arguments the source passes:
  \<^verbatim>\<open>puppeteer.launch({headless, args})\<close>, \<^verbatim>\<open>browser.newPage()\<close>,
  \<^verbatim>\<open>page.goto(url, {waitUntil, timeout})\<close>, \<^verbatim>\<open>page.waitForTimeout(ms)\<close>,
  \<^verbatim>\<open>page.$(selector)\<close>, \<^verbatim>\<open>element.click()\<close>,
  \<^verbatim>\<open>page.screenshot({path, fullPage})\<close> and \<^verbatim>\<open>browser.close()\<close>.
\<close>

datatype call =
    Launch bool "string list"
  | NewPage
  | Goto string string nat
  | WaitForTimeout nat
  | Query string
  | Click element
  | Screenshot string bool
  | Close

text \<open>
  The environment of one invocation: the workflow inputs, the rejection (if any) of each
  awaited call, and the page at the time of the lookup, as its elements in document order
  with the matching relation of selectors. \<^verbatim>\<open>page.$\<close> resolves to the first element
  of the document that matches the selector, or to \<^verbatim>\<open>null\<close>.
\<close>

record env =
  inputs :: "string \<Rightarrow> string"
  raises :: "call \<Rightarrow> error option"
  document :: "element list"
  sel_matches :: "string \<Rightarrow> element \<Rightarrow> bool"

text \<open>
  The world \<^verbatim>\<open>run\<close> acts on: the calls made to the browser library (oldest first,
  resolved or rejected),
  the number of browser sessions that are open, the files written, the lines printed on
  standard output and standard error, and the calls of \<^verbatim>\<open>core.setOutput\<close> and
  \<^verbatim>\<open>core.setFailed\<close>.
\<close>

record world =
  calls :: "call list"
  sessions :: nat
  files :: "string list"
  stdout :: "string list"
  stderr :: "string list"
  outputs :: "(string \<times> string) list"
  failures :: "string list"

definition initial :: world where
  "initial = \<lparr>calls = [], sessions = 0, files = [], stdout = [], stderr = [],
     outputs = [], failures = []\<rparr>"

subsection \<open>Sequencing\<close>

text \<open>
  An awaited call either resolves to a value or is rejected with an error; both leave a
  changed world. \<open>await m k\<close> is \<^verbatim>\<open>const x = await m; k(x)\<close>: a rejection of \<open>m\<close>
  leaves the \<^verbatim>\<open>try\<close> block at once. \<open>stmt f k\<close> is a synchronous statement \<open>f\<close>
  followed by \<open>k\<close>.
\<close>

type_synonym 'a awaited = "world \<Rightarrow> (error + 'a) \<times> world"

definition await :: "'a awaited \<Rightarrow> ('a \<Rightarrow> 'b awaited) \<Rightarrow> 'b awaited" where
  "await m k w = (case m w of (Inl e, w') \<Rightarrow> (Inl e, w') | (Inr x, w') \<Rightarrow> k x w')"

definition stmt :: "(world \<Rightarrow> world) \<Rightarrow> 'a awaited \<Rightarrow> 'a awaited" where
  "stmt f k w = k (f w)"

definition done_ok :: "unit awaited" where
  "done_ok w = (Inr (), w)"

text \<open>
  Making a call records it among the calls of the world, whether the call then resolves or
  is rejected; the environment decides which.
\<close>

definition issue :: "env \<Rightarrow> call \<Rightarrow> unit awaited" where
  "issue env c w =
     (case raises env c of Some e \<Rightarrow> Inl e | None \<Rightarrow> Inr (), w\<lparr>calls := calls w @ [c]\<rparr>)"

subsection \<open>The library calls\<close>

definition launch :: "env \<Rightarrow> bool \<Rightarrow> string list \<Rightarrow> unit awaited" where
  "launch env headless args =
     await (issue env (Launch headless args))
       (\<lambda>_ w. (Inr (), w\<lparr>sessions := Suc (sessions w)\<rparr>))"

definition newPage :: "env \<Rightarrow> unit awaited" where
  "newPage env = issue env NewPage"

definition goto :: "env \<Rightarrow> string \<Rightarrow> string \<Rightarrow> nat \<Rightarrow> unit awaited" where
  "goto env url waitUntil timeout = issue env (Goto url waitUntil timeout)"

definition waitForTimeout :: "env \<Rightarrow> nat \<Rightarrow> unit awaited" where
  "waitForTimeout env ms = issue env (WaitForTimeout ms)"

definition query :: "env \<Rightarrow> string \<Rightarrow> element option awaited" where
  "query env selector =
     await (issue env (Query selector))
       (\<lambda>_ w. (Inr (find (sel_matches env selector) (document env)), w))"

definition click :: "env \<Rightarrow> element \<Rightarrow> unit awaited" where
  "click env el = issue env (Click el)"

definition screenshot :: "env \<Rightarrow> string \<Rightarrow> bool \<Rightarrow> unit awaited" where
  "screenshot env path fullPage =
     await (issue env (Screenshot path fullPage))
       (\<lambda>_ w. (Inr (), w\<lparr>files := files w @ [path]\<rparr>))"

definition close :: "env \<Rightarrow> unit awaited" where
  "close env =
     await (issue env Close)
       (\<lambda>_ w. (Inr (), w\<lparr>sessions := sessions w - 1\<rparr>))"

text \<open>
  The calls of the workflow toolkit and of the console are synchronous and are taken to
  return normally: \<^verbatim>\<open>core.getInput\<close> (called without the \<^verbatim>\<open>required\<close> option)
  returns the input, the others add to what the world records. What is thrown is an
  \<^verbatim>\<open>Error\<close> object, so that \<^verbatim>\<open>error.message\<close> is a string.
\<close>

definition getInput :: "env \<Rightarrow> string \<Rightarrow> string" where
  "getInput env name = inputs env name"

definition setOutput :: "string \<Rightarrow> string \<Rightarrow> world \<Rightarrow> world" where
  "setOutput name v w = w\<lparr>outputs := outputs w @ [(name, v)]\<rparr>"

definition setFailed :: "string \<Rightarrow> world \<Rightarrow> world" where
  "setFailed msg w = w\<lparr>failures := failures w @ [msg]\<rparr>"

definition console_log :: "string \<Rightarrow> world \<Rightarrow> world" where
  "console_log line w = w\<lparr>stdout := stdout w @ [line]\<rparr>"

definition console_error :: "string \<Rightarrow> world \<Rightarrow> world" where
  "console_error line w = w\<lparr>stderr := stderr w @ [line]\<rparr>"

section \<open>Loading the file\<close>

text \<open>The em dash of lines 23 and 32, as its UTF-8 bytes.\<close>

definition em_dash :: string where
  "em_dash = [CHR 0xE2, CHR 0x80, CHR 0x94]"

text \<open>
  Before any statement of the file is executed, the whole text of the file has to be
  accepted by the loader of the language. The loader is not code of the repository; what
  follows is the part of the lexical grammar of ECMAScript that decides where the
  character \<^verbatim>\<open>#\<close> may stand. The text of the file, line by line:
\<close>

definition index_js :: "string list" where
  \<open>index_js =
    [''const puppeteer = require(\'puppeteer-core\');'',
     ''const core = require(\'@actions/core\');'',
     '''',
     ''async function run() {'',
     ''  const url = core.getInput(\'url\');'',
     ''  '',
     ''  try {'',
     ''    const browser = await puppeteer.launch({'',
     ''      headless: true,'',
     ''      args: [\'--no-sandbox\', \'--disable-setuid-sandbox\']'',
     ''    });'',
     ''    const page = await browser.newPage();'',
     ''    '',
     ''    // Load the page'',
     ''    await page.goto(url, { waitUntil: \'networkidle2\', timeout: 30000 });'',
     ''    '',
     ''    // Wait a bit for any sleep banner'',
     ''    await page.waitForTimeout(2000);'',
     ''    '',
     ''    // Check for and click "wake up" button (common selectors)'',
     ''    const wakeButton = await page.$(\'button:has-text("Wake up"), [data-testid="stAppViewContainer"] button, .stAlert button\');'',
     ''    if (wakeButton) {'',
     ''      console.log(\'Sleep detected'' @ em_dash @ ''waking up...\');'',
     ''      await wakeButton.click();'',
     ''      await page.waitForTimeout(5000);  // Wait for wake'',
     ''    } else {'',
     ''      console.log(\'App is already awake.\');'',
     ''    }'',
     ''    '',
     ''    // Final load check'',
     ''    await page.screenshot({ path: \'ping-screenshot.png\', fullPage: true });  # Optional: Log for debug'',
     ''    console.log(\'Ping successful'' @ em_dash @ ''app is active.\');'',
     ''    '',
     ''    await browser.close();'',
     ''    core.setOutput(\'status\', \'awake\');'',
     ''  } catch (error) {'',
     ''    console.error(`Ping failed: ${error.message}`);'',
     ''    core.setFailed(error.message);'',
     ''  }'',
     ''}'',
     '''',
     ''run();'']\<close>

text \<open>
  Outside string literals, template literals and comments, \<^verbatim>\<open>#\<close> begins a token only
  as the first character of a private name, where the first character of an identifier
  follows at once, or of a hashbang comment, which can only open the text. Comments
  begin with \<^verbatim>\<open>//\<close> and \<^verbatim>\<open>/*\<close>. The scan keeps track of where it is: in code,
  inside a string literal of either kind, inside a template literal, or inside a block
  comment; for a template literal it keeps the number of braces open in each substitution
  that encloses the position.
\<close>

datatype mode = Code | SQuote | DQuote | Template | BlockComment

text \<open>
  The result of scanning one line: the state at the end of the line; or an error at a
  column; or a column from which this fragment of the grammar does not decide (a
  \<^verbatim>\<open>/\<close> that may begin a regular expression literal, a character outside ASCII after
  \<^verbatim>\<open>#\<close>, a markup-style comment opener or closer).
\<close>

datatype scanned = Eol mode "nat list" | Bad nat | Unsure nat

definition ident_start :: "char \<Rightarrow> bool" where
  "ident_start c \<longleftrightarrow>
     c \<in> set (''abcdefghijklmnopqrstuvwxyzABCDEFGHIJKLMNOPQRSTUVWXYZ$_'' @ [CHR 0x5C])"

fun scan :: "mode \<Rightarrow> nat list \<Rightarrow> nat \<Rightarrow> string \<Rightarrow> scanned" where
  "scan m st col [] =
     (case m of SQuote \<Rightarrow> Bad col | DQuote \<Rightarrow> Bad col | _ \<Rightarrow> Eol m st)"
| "scan Code st col (c # cs) =
     (if c = CHR ''#'' then
        (case cs of
           [] \<Rightarrow> Bad col
         | d # _ \<Rightarrow>
             if ident_start d then scan Code st (col + 1) cs
             else if (128::nat) \<le> of_char d then Unsure col
             else Bad col)
      else if c = CHR 0x27 then scan SQuote st (col + 1) cs
      else if c = CHR 0x22 then scan DQuote st (col + 1) cs
      else if c = CHR 0x60 then scan Template st (col + 1) cs
      else if c = CHR ''/'' then
        (case cs of
           [] \<Rightarrow> Unsure col
         | d # ds \<Rightarrow>
             if d = CHR ''/'' then Eol Code st
             else if d = CHR ''*'' then scan BlockComment st (col + 2) ds
             else Unsure col)
      else if c = CHR ''<'' \<and> take 3 cs = ''!--'' then Unsure col
      else if c = CHR ''-'' \<and> take 2 cs = ''->'' then Unsure col
      else if c = CHR ''{'' then
        scan Code (case st of [] \<Rightarrow> [] | n # r \<Rightarrow> Suc n # r) (col + 1) cs
      else if c = CHR ''}'' then
        (case st of
           [] \<Rightarrow> scan Code [] (col + 1) cs
         | 0 # r \<Rightarrow> scan Template r (col + 1) cs
         | Suc n # r \<Rightarrow> scan Code (n # r) (col + 1) cs)
      else scan Code st (col + 1) cs)"
| "scan SQuote st col (c # cs) =
     (if c = CHR 0x5C then
        (case cs of [] \<Rightarrow> Eol SQuote st | _ # ds \<Rightarrow> scan SQuote st (col + 2) ds)
      else if c = CHR 0x27 then scan Code st (col + 1) cs
      else scan SQuote st (col + 1) cs)"
| "scan DQuote st col (c # cs) =
     (if c = CHR 0x5C then
        (case cs of [] \<Rightarrow> Eol DQuote st | _ # ds \<Rightarrow> scan DQuote st (col + 2) ds)
      else if c = CHR 0x22 then scan Code st (col + 1) cs
      else scan DQuote st (col + 1) cs)"
| "scan Template st col (c # cs) =
     (if c = CHR 0x5C then
        (case cs of [] \<Rightarrow> Eol Template st | _ # ds \<Rightarrow> scan Template st (col + 2) ds)
      else if c = CHR 0x60 then scan Code st (col + 1) cs
      else if c = CHR ''$'' then
        (case cs of
           [] \<Rightarrow> Eol Template st
         | d # ds \<Rightarrow>
             if d = CHR ''{'' then scan Code (0 # st) (col + 2) ds
             else scan Template st (col + 1) cs)
      else scan Template st (col + 1) cs)"
| "scan BlockComment st col (c # cs) =
     (if c = CHR ''*'' then
        (case cs of
           [] \<Rightarrow> Eol BlockComment st
         | d # ds \<Rightarrow>
             if d = CHR ''/'' then scan Code st (col + 2) ds
             else scan BlockComment st (col + 1) cs)
      else scan BlockComment st (col + 1) cs)"

text \<open>The verdict on a text: line and column of the first error, if the scan finds one.\<close>

datatype verdict = Tokenised | Syntax_error nat nat | Undecided nat nat

fun scan_lines :: "mode \<Rightarrow> nat list \<Rightarrow> nat \<Rightarrow> string list \<Rightarrow> verdict" where
  "scan_lines m st n [] =
     (if m = Code \<and> st = [] then Tokenised else Syntax_error n 1)"
| "scan_lines m st n (l # ls) =
     (case scan m st 1 l of
        Bad col \<Rightarrow> Syntax_error n col
      | Unsure col \<Rightarrow> Undecided n col
      | Eol m' st' \<Rightarrow> scan_lines m' st' (Suc n) ls)"

definition tokenise :: "string list \<Rightarrow> verdict" where
  "tokenise ls =
     (case ls of
        [] \<Rightarrow> Tokenised
      | l # rest \<Rightarrow>
          if take 2 l = ''#!'' then scan_lines Code [] 2 rest
          else scan_lines Code [] 1 ls)"

section \<open>The function \<^verbatim>\<open>run\<close> and its invocation\<close>

definition wake_selector :: string where
  \<open>wake_selector =
     ''button:has-text("Wake up"), [data-testid="stAppViewContainer"] button, .stAlert button''\<close>


text \<open>
  \<^verbatim>\<open>run\<close> is the function that the text of the file declares. Its statements are
  executed only when the text has been accepted as a whole; of a text that is not
  accepted no statement is executed, whatever the environment, and an invocation leaves
  the world as it is. The verdict on the text includes the text that follows the
  screenshot statement on line 31, which is part of \<open>index_js\<close>.

  For an accepted text the statements are those of lines 5 to 39: the input is read, the
  \<^verbatim>\<open>try\<close> block awaits its calls one after the other, and the \<^verbatim>\<open>catch\<close> block prints
  and reports the message of the error that left the \<^verbatim>\<open>try\<close> block.
\<close>

definition run :: "env \<Rightarrow> world \<Rightarrow> world" where
  "run env w =
     (case tokenise index_js of
        Syntax_error l c \<Rightarrow> w
      | Undecided l c \<Rightarrow> w
      | Tokenised \<Rightarrow>
          (let url = getInput env ''url'';
               try_block =
                 await (launch env True [''--no-sandbox'', ''--disable-setuid-sandbox''])
                   (\<lambda>browser.
                 await (newPage env) (\<lambda>page.
                 await (goto env url ''networkidle2'' 30000) (\<lambda>_.
                 await (waitForTimeout env 2000) (\<lambda>_.
                 await (query env wake_selector) (\<lambda>wakeButton.
                 await
                   (case wakeButton of
                      Some el \<Rightarrow>
                        stmt (console_log (''Sleep detected'' @ em_dash @ ''waking up...''))
                          (await (click env el) (\<lambda>_.
                           waitForTimeout env 5000))
                    | None \<Rightarrow>
                        stmt (console_log ''App is already awake.'') done_ok) (\<lambda>_.
                 await (screenshot env ''ping-screenshot.png'' True) (\<lambda>_.
                 stmt (console_log (''Ping successful'' @ em_dash @ ''app is active.''))
                   (await (close env) (\<lambda>_.
                    stmt (setOutput ''status'' ''awake'') done_ok)))))))))
           in case try_block w of
                (Inr _, w') \<Rightarrow> w'
              | (Inl error, w') \<Rightarrow>
                  setFailed (err_message error)
                    (console_error (''Ping failed: '' @ err_message error) w')))"

text \<open>
  Invoking the script: the text is loaded as a whole; only a text that loads reaches the
  call \<^verbatim>\<open>run();\<close> of its last line. A text that does not load ends the invocation with
  the error of the loader, which the caller sees in place of anything \<^verbatim>\<open>run\<close> would
  report.
\<close>

datatype outcome = Load_failed nat nat | Load_undecided nat nat | Ran world

definition script :: "env \<Rightarrow> world \<Rightarrow> outcome" where
  "script env w =
     (case tokenise index_js of
        Syntax_error l c \<Rightarrow> Load_failed l c
      | Undecided l c \<Rightarrow> Load_undecided l c
      | Tokenised \<Rightarrow> Ran (run env w))"

section \<open>Reading a run\<close>

text \<open>The calls the source writes, with their arguments.\<close>

abbreviation launch_call :: call where
  "launch_call \<equiv> Launch True [''--no-sandbox'', ''--disable-setuid-sandbox'']"

abbreviation goto_call :: "env \<Rightarrow> call" where
  "goto_call env \<equiv> Goto (inputs env ''url'') ''networkidle2'' 30000"


text \<open>What \<^verbatim>\<open>page.$\<close> resolves to on the page of the environment.\<close>

abbreviation first_match :: "env \<Rightarrow> element option" where
  "first_match env \<equiv> find (sel_matches env wake_selector) (document env)"

text \<open>The elements clicked and the fixed delays requested, read off a list of calls.\<close>

fun clicks :: "call list \<Rightarrow> element list" where
  "clicks [] = []"
| "clicks (Click el # cs) = el # clicks cs"
| "clicks (_ # cs) = clicks cs"


subsection \<open>Example environments\<close>

definition the_inputs :: "string \<Rightarrow> string" where
  "the_inputs name = (if name = ''url'' then ''https://example.org/'' else [])"

text \<open>No call is rejected and the page has no wake-up control.\<close>

definition env_awake :: env where
  "env_awake = \<lparr>inputs = the_inputs, raises = (\<lambda>c. None), document = [],
     sel_matches = (\<lambda>sel el. False)\<rparr>"

text \<open>
  No call is rejected; the page has three elements, of which the second and the third
  match the selector.
\<close>

definition env_asleep :: env where
  "env_asleep = \<lparr>inputs = the_inputs, raises = (\<lambda>c. None), document = [4, 8, 15],
     sel_matches = (\<lambda>sel el. sel = wake_selector \<and> (el = 8 \<or> el = 15))\<rparr>"

text \<open>The navigation of the page runs into its timeout.\<close>

definition nav_timeout :: error where
  "nav_timeout = Error ''TimeoutError'' ''Navigation timeout of 30000 ms exceeded''"

definition env_nav_timeout :: env where
  "env_nav_timeout = \<lparr>inputs = the_inputs,
     raises = (\<lambda>c. case c of Goto u cond ms \<Rightarrow> Some nav_timeout | _ \<Rightarrow> None),
     document = [], sel_matches = (\<lambda>sel el. False)\<rparr>"

text \<open>The page of \<open>env_asleep\<close>, where clicking an element is rejected.\<close>

definition click_error :: error where
  "click_error = Error ''Error'' ''Node is either not clickable or not an Element''"

definition env_click_rejected :: env where
  "env_click_rejected = \<lparr>inputs = the_inputs,
     raises = (\<lambda>c. case c of Click el \<Rightarrow> Some click_error | _ \<Rightarrow> None),
     document = [4, 8, 15],
     sel_matches = (\<lambda>sel el. sel = wake_selector \<and> (el = 8 \<or> el = 15))\<rparr>"

section \<open>The file does not load\<close>

lemma tokenise_index_js: "tokenise index_js = Syntax_error 31 78"
  by (simp add: tokenise_def index_js_def ident_start_def em_dash_def)

text \<open>
  The scan finds nothing else: with \<^verbatim>\<open>//\<close> in place of the \<^verbatim>\<open>#\<close> of line 31, the
  text is scanned to its end.
\<close>

lemma tokenise_line_comment:
  "tokenise (index_js [30 := take 77 (index_js ! 30) @ ''//'' @ drop 78 (index_js ! 30)]) =
     Tokenised"
  by (simp add: tokenise_def index_js_def ident_start_def em_dash_def)

text \<open>
  Claim C3: the scan of the file stops on line 31, at the character \<^verbatim>\<open>#\<close> in column
  78, which is followed by a blank: the text is not a program of the language. Every
  invocation of the script therefore fails while the file is loaded, in every environment
  and before \<^verbatim>\<open>run\<close> is called.
\<close>

theorem script_fails_to_load:
  "tokenise index_js = Syntax_error 31 78 \<and>
   index_js ! 30 ! 77 = CHR ''#'' \<and> index_js ! 30 ! 78 = CHR '' '' \<and>
   (\<forall>env w. script env w = Load_failed 31 78)"
proof -
  have "tokenise index_js = Syntax_error 31 78"
    by (rule tokenise_index_js)
  moreover have "index_js ! 30 ! 77 = CHR ''#''" and "index_js ! 30 ! 78 = CHR '' ''"
    by (simp_all add: index_js_def)
  ultimately show ?thesis
    by (simp add: script_def)
qed

section \<open>What an invocation does\<close>

text \<open>
  Since the text is not accepted, no statement of \<^verbatim>\<open>run\<close> is executed: in every
  environment an invocation leaves the world as it found it.
\<close>

lemma run_not_entered: "run env w = w"
  by (simp add: run_def tokenise_index_js)

lemma script_load_failed: "script env w = Load_failed 31 78"
  by (simp add: script_def tokenise_index_js)

lemma env_awake_facts:
  "raises env_awake c = None" "document env_awake = []" "inputs env_awake = the_inputs"
  by (simp_all add: env_awake_def)

lemma env_asleep_facts:
  "raises env_asleep c = None" "document env_asleep = [4, 8, 15]"
  "inputs env_asleep = the_inputs"
  "sel_matches env_asleep wake_selector el \<longleftrightarrow> el = 8 \<or> el = 15"
  by (simp_all add: env_asleep_def)

lemma env_nav_timeout_facts:
  "raises env_nav_timeout (Launch h as) = None" "raises env_nav_timeout NewPage = None"
  "raises env_nav_timeout (Goto u cond ms) = Some nav_timeout"
  "document env_nav_timeout = []" "inputs env_nav_timeout = the_inputs"
  by (simp_all add: env_nav_timeout_def)

lemma env_click_rejected_facts:
  "raises env_click_rejected (Launch h as) = None" "raises env_click_rejected NewPage = None"
  "raises env_click_rejected (Goto u cond ms) = None"
  "raises env_click_rejected (WaitForTimeout ms) = None"
  "raises env_click_rejected (Query sel) = None"
  "raises env_click_rejected (Click el) = Some click_error"
  "document env_click_rejected = [4, 8, 15]" "inputs env_click_rejected = the_inputs"
  "sel_matches env_click_rejected wake_selector el \<longleftrightarrow> el = 8 \<or> el = 15"
  by (simp_all add: env_click_rejected_def)

lemmas example_envs = env_awake_facts env_asleep_facts env_nav_timeout_facts
  env_click_rejected_facts the_inputs_def initial_def

subsection \<open>Release of the browser session\<close>


subsection \<open>Status and failure\<close>


subsection \<open>The page without a wake-up control\<close>

text \<open>
  Claim C4 says that on a page that loads and has no element matching the selector, the
  run clicks nothing and sets the status \<^verbatim>\<open>awake\<close>. In the environment where no call is
  rejected and the page has no such element, nothing is clicked, and no status is set.
\<close>

theorem no_status_without_wake_control:
  "raises env_awake launch_call = None \<and> raises env_awake NewPage = None \<and>
   raises env_awake (goto_call env_awake) = None \<and> first_match env_awake = None \<and>
   (\<forall>c. raises env_awake c = None) \<and>
   clicks (calls (run env_awake initial)) = [] \<and>
   outputs (run env_awake initial) = []"
  by (simp add: run_not_entered example_envs)

subsection \<open>The page with a wake-up control\<close>

text \<open>
  Claim C5 says that on a page that loads and has a matching element, the run clicks the
  first match, once, and sets the status \<^verbatim>\<open>awake\<close>. In the environment where no call
  is rejected and element 8 is the first match of the page, nothing is clicked and no
  status is set.
\<close>

theorem no_click_with_wake_control:
  "raises env_asleep launch_call = None \<and> raises env_asleep NewPage = None \<and>
   raises env_asleep (goto_call env_asleep) = None \<and> first_match env_asleep = Some 8 \<and>
   (\<forall>c. raises env_asleep c = None) \<and>
   clicks (calls (run env_asleep initial)) = [] \<and>
   outputs (run env_asleep initial) = []"
  by (simp add: run_not_entered example_envs)

subsection \<open>Navigation timeout\<close>

text \<open>
  Claim C6 says that for a URL whose navigation runs into the timeout of 30 seconds, the
  run reports a failure whose message is that of the timeout. In the environment where
  the library would reject the navigation with its timeout error, the navigation is never
  requested; nothing is printed and no failure is set by \<^verbatim>\<open>run\<close>, and the invocation
  ends with the error of the loader at line 31.
\<close>

theorem timeout_not_reported:
  "raises env_nav_timeout launch_call = None \<and> raises env_nav_timeout NewPage = None \<and>
   raises env_nav_timeout (goto_call env_nav_timeout) = Some nav_timeout \<and>
   err_message nav_timeout = ''Navigation timeout of 30000 ms exceeded'' \<and>
   calls (run env_nav_timeout initial) = [] \<and>
   failures (run env_nav_timeout initial) = [] \<and>
   stderr (run env_nav_timeout initial) = [] \<and>
   outputs (run env_nav_timeout initial) = [] \<and>
   script env_nav_timeout initial = Load_failed 31 78"
  by (simp add: run_not_entered script_load_failed example_envs nav_timeout_def)

subsection \<open>Catching and reporting\<close>


subsection \<open>The fixed delays\<close>


subsection \<open>The screenshot\<close>


subsection \<open>Independence of invocations\<close>

text \<open>
  Claim C10: what a run adds to the world depends on the environment only, not on the
  world it starts in. A second run in the same environment therefore adds exactly what
  the first one added, whatever the first one left behind: the same status, or the same
  failure.
\<close>

theorem run_stateless:
  "calls (run env w) = calls w @ calls (run env initial) \<and>
   sessions (run env w) = sessions w + sessions (run env initial) \<and>
   files (run env w) = files w @ files (run env initial) \<and>
   stdout (run env w) = stdout w @ stdout (run env initial) \<and>
   stderr (run env w) = stderr w @ stderr (run env initial) \<and>
   outputs (run env w) = outputs w @ outputs (run env initial) \<and>
   failures (run env w) = failures w @ failures (run env initial) \<and>
   outputs (run env (run env initial)) =
     outputs (run env initial) @ outputs (run env initial) \<and>
   failures (run env (run env initial)) =
     failures (run env initial) @ failures (run env initial)"
  by (simp add: run_not_entered initial_def)

end
